theory Spec2Isabelle
  imports Main
begin

section \<open>Python strings\<close>

text \<open>
  A Python \<open>str\<close> is modelled as a \<open>string\<close> whose characters are the code points
  0 to 255. \<open>len\<close> is \<open>length\<close>, and \<open>not s\<close> is \<open>s = []\<close>.
\<close>

definition py_isspace :: "char \<Rightarrow> bool" where
  \<comment> \<open>\<open>str.isspace\<close> on one character: the white space of Unicode below 256.\<close>
  "py_isspace c = ((of_char c :: nat) \<in> {9, 10, 11, 12, 13, 28, 29, 30, 31, 32, 133, 160})"

definition py_lstrip :: "string \<Rightarrow> string" where
  "py_lstrip s = dropWhile py_isspace s"

definition py_rstrip :: "string \<Rightarrow> string" where
  "py_rstrip s = rev (dropWhile py_isspace (rev s))"

definition py_strip :: "string \<Rightarrow> string" where
  \<comment> \<open>\<open>s.strip()\<close>\<close>
  "py_strip s = py_rstrip (py_lstrip s)"

definition py_rstrip_chars :: "string \<Rightarrow> string \<Rightarrow> string" where
  \<comment> \<open>\<open>s.rstrip(chars)\<close>\<close>
  "py_rstrip_chars chars s = rev (dropWhile (\<lambda>c. c \<in> set chars) (rev s))"

fun py_join :: "string \<Rightarrow> string list \<Rightarrow> string" where
  \<comment> \<open>\<open>sep.join(xs)\<close>\<close>
  "py_join sep [] = []"
| "py_join sep [x] = x"
| "py_join sep (x # y # ys) = x @ sep @ py_join sep (y # ys)"

section \<open>The credential cipher\<close>

text \<open>
  \<open>storage.py\<close> encrypts with \<open>cryptography.fernet.Fernet\<close>, a library that is not part
  of the repository. Its tokens are modelled symbolically: a token records the key and
  the plaintext it was made from, and any other stored text is not a token.
\<close>

type_synonym fernet_key = string

datatype ctext =
    Fernet_token fernet_key string
  | Not_a_token string

datatype cipher_error = DecryptionError

definition fernet_encrypt :: "fernet_key \<Rightarrow> string \<Rightarrow> ctext" where
  \<comment> \<open>Modelled from the spec: the Fernet cipher of the \<open>cryptography\<close> package that
      \<open>self.cipher.encrypt\<close> calls is missing from the sources; section 4.1 gives
      \<open>encrypt(plaintext, key) -> ciphertext\<close>. The random initialisation vector and the
      time stamp of a real token are left out.\<close>
  "fernet_encrypt k s = Fernet_token k s"

fun fernet_decrypt :: "fernet_key \<Rightarrow> ctext \<Rightarrow> cipher_error + string" where
  \<comment> \<open>Modelled from the spec: the Fernet cipher of the \<open>cryptography\<close> package that
      \<open>self.cipher.decrypt\<close> calls is missing from the sources; section 4.1 says that
      \<open>decrypt\<close> fails with \<open>DecryptionError\<close> (the library's \<open>InvalidToken\<close>) if the
      ciphertext is malformed or the key does not match.\<close>
  "fernet_decrypt k (Fernet_token k' s) = (if k = k' then Inr s else Inl DecryptionError)"
| "fernet_decrypt k (Not_a_token t) = Inl DecryptionError"

section \<open>storage.py\<close>

text \<open>
  The two tables of \<open>_init_db\<close>. A table is the list of its rows in insertion order;
  the primary keys are not built into the type, they are maintained by the statements.
\<close>

record token_row =
  user_id :: int
  username :: string
  encrypted_token :: ctext
  blinko_url :: "string option"
  created_at :: nat
  updated_at :: nat

record note_row =
  nm_user_id :: int
  nm_message_id :: int
  nm_chat_id :: int
  nm_note_id :: string
  nm_note_type :: int
  nm_created_at :: nat

record database =
  user_tokens :: "token_row list"
  note_messages :: "note_row list"

record UserStorage =
  cipher :: fernet_key
  db :: database

text \<open>
  Every method opens its own connection inside \<open>try\<close>. Whether SQLite raises during
  that call is decided by the environment, and is an argument of the model.
\<close>

datatype sqlite_io = Sqlite_ok | Sqlite_raises

definition insert_or_replace_token :: "token_row \<Rightarrow> token_row list \<Rightarrow> token_row list" where
  \<comment> \<open>\<open>INSERT OR REPLACE INTO user_tokens\<close>: rows in conflict on the primary key
      \<open>user_id\<close> are deleted, then the new row is inserted.\<close>
  "insert_or_replace_token r rows = filter (\<lambda>x. user_id x \<noteq> user_id r) rows @ [r]"

definition same_note_key :: "note_row \<Rightarrow> note_row \<Rightarrow> bool" where
  "same_note_key r x =
     (nm_user_id x = nm_user_id r \<and> nm_message_id x = nm_message_id r \<and> nm_chat_id x = nm_chat_id r)"

definition insert_or_replace_note :: "note_row \<Rightarrow> note_row list \<Rightarrow> note_row list" where
  \<comment> \<open>\<open>INSERT OR REPLACE INTO note_messages\<close>, primary key
      \<open>(user_id, message_id, chat_id)\<close>.\<close>
  "insert_or_replace_note r rows = filter (\<lambda>x. \<not> same_note_key r x) rows @ [r]"

definition store_user_token ::
  "UserStorage \<Rightarrow> sqlite_io \<Rightarrow> nat \<Rightarrow> int \<Rightarrow> string \<Rightarrow> string \<Rightarrow> string option \<Rightarrow> UserStorage \<times> bool" where
  \<comment> \<open>\<open>now\<close> is \<open>CURRENT_TIMESTAMP\<close>: the statement sets \<open>updated_at\<close>, and
      \<open>created_at\<close> takes its column default, also on a replace.\<close>
  "store_user_token st io now uid uname token url =
     (let encrypted = fernet_encrypt (cipher st) token in
      case io of
        Sqlite_raises \<Rightarrow> (st, False)
      | Sqlite_ok \<Rightarrow>
          (st\<lparr>db := (db st)\<lparr>user_tokens :=
              insert_or_replace_token
                \<lparr>user_id = uid, username = uname, encrypted_token = encrypted,
                 blinko_url = url, created_at = now, updated_at = now\<rparr>
                (user_tokens (db st))\<rparr>\<rparr>, True))"

definition get_user_token :: "UserStorage \<Rightarrow> sqlite_io \<Rightarrow> int \<Rightarrow> string option" where
  \<comment> \<open>\<open>except Exception\<close> catches the failure of SQLite and the failure of
      \<open>decrypt\<close> alike, and returns \<open>None\<close>.\<close>
  "get_user_token st io uid =
     (case io of
        Sqlite_raises \<Rightarrow> None
      | Sqlite_ok \<Rightarrow>
          (case find (\<lambda>r. user_id r = uid) (user_tokens (db st)) of
             None \<Rightarrow> None
           | Some r \<Rightarrow>
               (case fernet_decrypt (cipher st) (encrypted_token r) of
                  Inl e \<Rightarrow> None
                | Inr token \<Rightarrow> Some token)))"

record user_config =
  cfg_token :: string
  cfg_blinko_url :: "string option"
  cfg_username :: string
  cfg_created_at :: nat

definition get_user_config :: "UserStorage \<Rightarrow> sqlite_io \<Rightarrow> int \<Rightarrow> user_config option" where
  "get_user_config st io uid =
     (case io of
        Sqlite_raises \<Rightarrow> None
      | Sqlite_ok \<Rightarrow>
          (case find (\<lambda>r. user_id r = uid) (user_tokens (db st)) of
             None \<Rightarrow> None
           | Some r \<Rightarrow>
               (case fernet_decrypt (cipher st) (encrypted_token r) of
                  Inl e \<Rightarrow> None
                | Inr token \<Rightarrow>
                    Some \<lparr>cfg_token = token, cfg_blinko_url = blinko_url r,
                          cfg_username = username r, cfg_created_at = created_at r\<rparr>)))"

definition remove_user_token :: "UserStorage \<Rightarrow> sqlite_io \<Rightarrow> int \<Rightarrow> UserStorage \<times> bool" where
  \<comment> \<open>\<open>DELETE FROM user_tokens WHERE user_id = ?\<close>, then \<open>return True\<close>.\<close>
  "remove_user_token st io uid =
     (case io of
        Sqlite_raises \<Rightarrow> (st, False)
      | Sqlite_ok \<Rightarrow>
          (st\<lparr>db := (db st)\<lparr>user_tokens :=
              filter (\<lambda>r. user_id r \<noteq> uid) (user_tokens (db st))\<rparr>\<rparr>, True))"

definition get_user_count :: "UserStorage \<Rightarrow> sqlite_io \<Rightarrow> int" where
  "get_user_count st io =
     (case io of
        Sqlite_raises \<Rightarrow> 0
      | Sqlite_ok \<Rightarrow> int (length (user_tokens (db st))))"

definition store_note_message ::
  "UserStorage \<Rightarrow> sqlite_io \<Rightarrow> nat \<Rightarrow> int \<Rightarrow> int \<Rightarrow> int \<Rightarrow> string \<Rightarrow> int \<Rightarrow> UserStorage \<times> bool" where
  "store_note_message st io now uid mid cid nid ntype =
     (case io of
        Sqlite_raises \<Rightarrow> (st, False)
      | Sqlite_ok \<Rightarrow>
          (st\<lparr>db := (db st)\<lparr>note_messages :=
              insert_or_replace_note
                \<lparr>nm_user_id = uid, nm_message_id = mid, nm_chat_id = cid,
                 nm_note_id = nid, nm_note_type = ntype, nm_created_at = now\<rparr>
                (note_messages (db st))\<rparr>\<rparr>, True))"

definition get_note_from_reply ::
  "UserStorage \<Rightarrow> sqlite_io \<Rightarrow> int \<Rightarrow> int \<Rightarrow> int \<Rightarrow> (string \<times> int) option" where
  \<comment> \<open>The dictionary \<open>{'note_id': .., 'note_type': ..}\<close> is the pair of its two values.\<close>
  "get_note_from_reply st io uid reply_to_message_id cid =
     (case io of
        Sqlite_raises \<Rightarrow> None
      | Sqlite_ok \<Rightarrow>
          (case find (\<lambda>r. nm_user_id r = uid \<and> nm_message_id r = reply_to_message_id
                           \<and> nm_chat_id r = cid) (note_messages (db st)) of
             None \<Rightarrow> None
           | Some r \<Rightarrow> Some (nm_note_id r, nm_note_type r)))"

definition one_row_per_user :: "UserStorage \<Rightarrow> bool" where
  \<comment> \<open>The primary key of \<open>user_tokens\<close>: no two rows with the same \<open>user_id\<close>.\<close>
  "one_row_per_user st = distinct (map user_id (user_tokens (db st)))"

definition empty_storage :: "fernet_key \<Rightarrow> UserStorage" where
  \<comment> \<open>The storage after \<open>_init_db\<close> on a new database file.\<close>
  "empty_storage k = \<lparr>cipher = k, db = \<lparr>user_tokens = [], note_messages = []\<rparr>\<rparr>"

section \<open>Python values\<close>

text \<open>
  The values that \<open>response.json()\<close> can return, and the built-ins the source applies
  to them. A JSON number with a fraction or an exponent, which Python reads as a float,
  is not represented.
\<close>

datatype pyval =
    PyNone
  | PyBool bool
  | PyInt int
  | PyStr string
  | PyList "pyval list"
  | PyDict "(string \<times> pyval) list"

fun py_truthy :: "pyval \<Rightarrow> bool" where
  \<comment> \<open>\<open>bool(v)\<close>, the test of \<open>if v:\<close>\<close>
  "py_truthy PyNone = False"
| "py_truthy (PyBool b) = b"
| "py_truthy (PyInt i) = (i \<noteq> 0)"
| "py_truthy (PyStr s) = (s \<noteq> [])"
| "py_truthy (PyList xs) = (xs \<noteq> [])"
| "py_truthy (PyDict kvs) = (kvs \<noteq> [])"

definition digit_char :: "nat \<Rightarrow> char" where
  "digit_char n = ''0123456789abcdef'' ! (n mod 16)"

function nat_digits :: "nat \<Rightarrow> string" where
  "nat_digits n = (if n < 10 then [digit_char n] else nat_digits (n div 10) @ [digit_char (n mod 10)])"
  by pat_completeness auto
termination
  by (relation "measure id") auto

declare nat_digits.simps [simp del]

definition int_str :: "int \<Rightarrow> string" where
  \<comment> \<open>\<open>str(i)\<close> of an integer\<close>
  "int_str i = (if i < 0 then CHR ''-'' # nat_digits (nat (- i)) else nat_digits (nat i))"

definition py_isprintable :: "char \<Rightarrow> bool" where
  \<comment> \<open>\<open>str.isprintable\<close> on one character below 256\<close>
  "py_isprintable c =
     (let n = (of_char c :: nat) in (32 \<le> n \<and> n < 127) \<or> (161 \<le> n \<and> n \<noteq> 173))"

definition repr_char :: "char \<Rightarrow> char \<Rightarrow> string" where
  "repr_char q c =
     (if c = q \<or> c = CHR 0x5C then [CHR 0x5C, c]
      else if c = CHR 0x09 then [CHR 0x5C, CHR ''t'']
      else if c = CHR 0x0A then [CHR 0x5C, CHR ''n'']
      else if c = CHR 0x0D then [CHR 0x5C, CHR ''r'']
      else if py_isprintable c then [c]
      else [CHR 0x5C, CHR ''x'', digit_char (of_char c div 16), digit_char (of_char c mod 16)])"

definition str_repr :: "string \<Rightarrow> string" where
  \<comment> \<open>\<open>repr(s)\<close> of a string: single quotes, unless the string has a single quote
      and no double quote\<close>
  "str_repr s =
     (let q = (if CHR 0x27 \<in> set s \<and> CHR 0x22 \<notin> set s then CHR 0x22 else CHR 0x27)
      in q # concat (map (repr_char q) s) @ [q])"

fun py_repr :: "pyval \<Rightarrow> string" where
  "py_repr PyNone = ''None''"
| "py_repr (PyBool b) = (if b then ''True'' else ''False'')"
| "py_repr (PyInt i) = int_str i"
| "py_repr (PyStr s) = str_repr s"
| "py_repr (PyList xs) = ''['' @ py_join '', '' (map py_repr xs) @ '']''"
| "py_repr (PyDict kvs) =
     ''{'' @ py_join '', '' (map (\<lambda>kv. str_repr (fst kv) @ '': '' @ py_repr (snd kv)) kvs) @ ''}''"

fun py_str :: "pyval \<Rightarrow> string" where
  \<comment> \<open>\<open>str(v)\<close>\<close>
  "py_str (PyStr s) = s"
| "py_str v = py_repr v"

fun py_type_name :: "pyval \<Rightarrow> string" where
  "py_type_name PyNone = ''NoneType''"
| "py_type_name (PyBool b) = ''bool''"
| "py_type_name (PyInt i) = ''int''"
| "py_type_name (PyStr s) = ''str''"
| "py_type_name (PyList xs) = ''list''"
| "py_type_name (PyDict kvs) = ''dict''"

datatype py_error = AttributeError string

fun py_get :: "pyval \<Rightarrow> string \<Rightarrow> pyval \<Rightarrow> py_error + pyval" where
  \<comment> \<open>\<open>v.get(key, default)\<close>: only a dictionary has the method. In a dictionary made
      from JSON text the last of several equal keys wins.\<close>
  "py_get (PyDict kvs) key dflt =
     (case map_of (rev kvs) key of None \<Rightarrow> Inr dflt | Some v \<Rightarrow> Inr v)"
| "py_get v key dflt =
     Inl (AttributeError ([CHR 0x27] @ py_type_name v @ [CHR 0x27] @ '' object has no attribute ''
                          @ [CHR 0x27] @ ''get'' @ [CHR 0x27]))"

section \<open>blinko_api.py\<close>

record http_session =
  headers :: "(string \<times> string) list"
  verify :: bool

record BlinkoAPI =
  base_url :: string
  session :: http_session
  insecure_request_warning_disabled :: bool

definition BlinkoAPI_init :: "string \<Rightarrow> BlinkoAPI" where
  \<comment> \<open>\<open>BlinkoAPI.__init__\<close>. The last field records the call of
      \<open>urllib3.disable_warnings(urllib3.exceptions.InsecureRequestWarning)\<close>.\<close>
  "BlinkoAPI_init url =
     \<lparr>base_url = url,
      session = \<lparr>headers = [(''Content-Type'', ''application/json''),
                            (''User-Agent'', ''BlinkoTelegramBot/1.0'')],
                 verify = False\<rparr>,
      insecure_request_warning_disabled = True\<rparr>"

datatype http_method = GET | POST

datatype url = Urljoin string string
  \<comment> \<open>\<open>urljoin(base, endpoint)\<close>, kept as its two arguments\<close>

record http_request =
  req_method :: http_method
  req_url :: url
  req_headers :: "(string \<times> string) list"
  req_json :: "pyval option"
  req_timeout :: nat

text \<open>
  What \<open>self.session.post\<close> or \<open>self.session.get\<close> does with a request: it returns a
  response, with its status code and with what \<open>response.json()\<close> gives (the value, or
  the text of the exception it raises), or it raises \<open>requests.exceptions.Timeout\<close>,
  \<open>requests.exceptions.ConnectionError\<close> (one that is not a \<open>Timeout\<close> too, since the
  \<open>except\<close> clause for \<open>Timeout\<close> comes first), or any other exception, with its text.
\<close>

datatype http_outcome =
    Response int "string + pyval"
  | Timeout
  | ConnectionError
  | OtherException string

type_synonym transport = "http_request \<Rightarrow> http_outcome"

text \<open>
  The dictionaries the client returns, one constructor for each set of keys:
  \<open>{'success': True, 'data': .., 'note_id': ..}\<close>,
  \<open>{'success': True, 'message': ..}\<close>,
  \<open>{'success': False, 'error': .., 'message': ..}\<close> and
  \<open>{'success': False, 'error': .., 'message': .., 'status_code': ..}\<close>.
\<close>

datatype api_result =
    Ok_note pyval pyval
  | Ok_message string
  | Err string string
  | Err_status string string int

fun success :: "api_result \<Rightarrow> bool" where
  "success (Ok_note d n) = True"
| "success (Ok_message m) = True"
| "success (Err e m) = False"
| "success (Err_status e m c) = False"

fun error :: "api_result \<Rightarrow> string option" where
  "error (Err e m) = Some e"
| "error (Err_status e m c) = Some e"
| "error r = None"

fun message :: "api_result \<Rightarrow> string option" where
  "message (Ok_message m) = Some m"
| "message (Err e m) = Some m"
| "message (Err_status e m c) = Some m"
| "message (Ok_note d n) = None"

fun note_id :: "api_result \<Rightarrow> pyval option" where
  \<comment> \<open>\<open>None\<close> when \<open>'note_id' in result\<close> is false\<close>
  "note_id (Ok_note d n) = Some n"
| "note_id r = None"

definition upsert_request :: "BlinkoAPI \<Rightarrow> string \<Rightarrow> pyval \<Rightarrow> http_request" where
  \<comment> \<open>The arguments of \<open>self.session.post\<close> in \<open>create_note\<close> and \<open>update_note\<close>:
      the headers of the session and the header of the call.\<close>
  "upsert_request api token note_data =
     \<lparr>req_method = POST,
      req_url = Urljoin (py_rstrip_chars ''/'' (base_url api) @ ''/'') ''note/upsert'',
      req_headers = headers (session api) @ [(''Authorization'', ''Bearer '' @ token)],
      req_json = Some note_data,
      req_timeout = 30\<rparr>"

definition upsert_result :: "pyval \<Rightarrow> http_outcome \<Rightarrow> api_result" where
  \<comment> \<open>The code after \<open>self.session.post\<close>, the same in \<open>create_note\<close> and
      \<open>update_note\<close> but for the default of \<open>result.get\<close>.\<close>
  "upsert_result dflt out =
     (case out of
        Response status_code body \<Rightarrow>
          if status_code = 401 then
            Err ''unauthorized'' ''Invalid or expired token. Please reconfigure with /configure''
          else if status_code \<ge> 400 then
            Err_status ''api_error'' (''API error: '' @ int_str status_code) status_code
          else
            (case body of
               Inl e \<Rightarrow> Err ''unexpected'' (''Unexpected error: '' @ e)
             | Inr result \<Rightarrow>
                 (case py_get result ''id'' dflt of
                    Inl (AttributeError e) \<Rightarrow> Err ''unexpected'' (''Unexpected error: '' @ e)
                  | Inr i \<Rightarrow> Ok_note result i))
      | Timeout \<Rightarrow> Err ''timeout'' ''Request timed out. Please try again.''
      | ConnectionError \<Rightarrow>
          Err ''connection'' ''Failed to connect to Blinko server. Please check your configuration.''
      | OtherException e \<Rightarrow> Err ''unexpected'' (''Unexpected error: '' @ e))"

definition create_note ::
  "BlinkoAPI \<Rightarrow> transport \<Rightarrow> string \<Rightarrow> string \<Rightarrow> int \<Rightarrow> api_result \<times> http_request list" where
  \<comment> \<open>Returns the dictionary and the requests that were sent.\<close>
  "create_note api tr token content note_type =
     (if content = [] \<or> py_strip content = [] then
        (Err ''validation'' ''Note content cannot be empty'', [])
      else
        let note_data = PyDict [(''content'', PyStr (py_strip content)), (''type'', PyInt note_type)];
            req = upsert_request api token note_data
        in (upsert_result PyNone (tr req), [req]))"

definition create_note_request :: "BlinkoAPI \<Rightarrow> string \<Rightarrow> string \<Rightarrow> int \<Rightarrow> http_request" where
  \<comment> \<open>The request that \<open>create_note\<close> sends when the content passes its check.\<close>
  "create_note_request api token content note_type =
     upsert_request api token
       (PyDict [(''content'', PyStr (py_strip content)), (''type'', PyInt note_type)])"

definition update_note ::
  "BlinkoAPI \<Rightarrow> transport \<Rightarrow> string \<Rightarrow> string \<Rightarrow> string \<Rightarrow> int \<Rightarrow> api_result \<times> http_request list" where
  "update_note api tr token nid content note_type =
     (if content = [] \<or> py_strip content = [] then
        (Err ''validation'' ''Note content cannot be empty'', [])
      else
        let note_data = PyDict [(''id'', PyStr nid), (''content'', PyStr (py_strip content)),
                                (''type'', PyInt note_type)];
            req = upsert_request api token note_data
        in (upsert_result (PyStr nid) (tr req), [req]))"

definition test_request :: "BlinkoAPI \<Rightarrow> string \<Rightarrow> http_request" where
  \<comment> \<open>The arguments of \<open>self.session.get\<close> in \<open>test_token\<close>.\<close>
  "test_request api token =
     \<lparr>req_method = GET,
      req_url = Urljoin (py_rstrip_chars ''/'' (base_url api) @ ''/'') ''note'',
      req_headers = headers (session api) @ [(''Authorization'', ''Bearer '' @ token)],
      req_json = None,
      req_timeout = 10\<rparr>"

definition test_token :: "BlinkoAPI \<Rightarrow> transport \<Rightarrow> string \<Rightarrow> api_result \<times> http_request list" where
  "test_token api tr token =
     (let req = test_request api token
      in (case tr req of
            Response status_code body \<Rightarrow>
              if status_code = 401 then Err ''unauthorized'' ''Invalid or expired token''
              else if status_code \<in> {200, 403} then Ok_message ''Token is valid''
              else Ok_message ''Token appears valid (authentication successful)''
          | Timeout \<Rightarrow> Err ''timeout'' ''Request timed out. Server may be unavailable.''
          | ConnectionError \<Rightarrow> Err ''connection'' ''Failed to connect to Blinko server.''
          | OtherException e \<Rightarrow> Err ''unexpected'' (''Unexpected error: '' @ e),
          [req]))"

section \<open>bot.py\<close>

record BlinkoTelegramBot =
  storage :: UserStorage
  blinko_api :: BlinkoAPI

text \<open>
  What a handler reads from \<open>update\<close> and \<open>context\<close>: the sender, the chat, the
  arguments of the command, the text of the message, the message replied to (the
  identifier of its sender and its own), and the identifier of the bot.
\<close>

record update =
  upd_user_id :: int
  upd_username :: "string option"
  upd_first_name :: string
  upd_chat_id :: int
  upd_args :: "string list"
  upd_text :: string
  upd_reply_to :: "(int \<times> int) option"
  upd_bot_id :: int

text \<open>
  What a handler sends to the chat. The wording of the messages is left out; each
  constructor is one message of the source, with the values put into its text.
\<close>

datatype sent =
    Provide_token
  | Token_too_short
  | Testing_token
  | Invalid_token
  | Connection_error string
  | Configuration_successful
  | Failed_to_store
  | Token_not_configured
  | Provide_content string
  | Content_empty string
  | Chat_action_typing
  | Added_to_blinko string string string
  | Authentication_failed
  | Failed_to_add string string
  | Update_content_empty
  | Updated string string
  | Failed_to_update string string
  | Configuration_removed
  | Failed_to_remove_or_no_configuration_found

record handled =
  bot_after :: BlinkoTelegramBot
  replies :: "sent list"
  requests :: "http_request list"

definition preview :: "string \<Rightarrow> string" where
  \<comment> \<open>\<open>content[:100]\<close>, followed by \<open>'...'\<close> if \<open>len(content) > 100\<close>\<close>
  "preview content = take 100 content @ (if length content > 100 then ''...'' else [])"

definition configure_command ::
  "BlinkoTelegramBot \<Rightarrow> transport \<Rightarrow> sqlite_io \<Rightarrow> nat \<Rightarrow> update \<Rightarrow> handled" where
  "configure_command self tr io now upd =
     (let uid = upd_user_id upd;
          uname = (case upd_username upd of
                     None \<Rightarrow> upd_first_name upd
                   | Some u \<Rightarrow> if u = [] then upd_first_name upd else u)
      in
      if upd_args upd = [] then
        \<lparr>bot_after = self, replies = [Provide_token], requests = []\<rparr>
      else
        let token = py_strip (py_join '' '' (upd_args upd)) in
        if length token < 10 then
          \<lparr>bot_after = self, replies = [Token_too_short], requests = []\<rparr>
        else
          let (test_result, reqs) = test_token (blinko_api self) tr token in
          if \<not> success test_result then
            (if error test_result = Some ''unauthorized'' then
               \<lparr>bot_after = self, replies = [Testing_token, Invalid_token], requests = reqs\<rparr>
             else
               \<lparr>bot_after = self,
                replies = [Testing_token,
                           Connection_error (case message test_result of Some m \<Rightarrow> m | None \<Rightarrow> [])],
                requests = reqs\<rparr>)
          else
            let (st, stored) = store_user_token (storage self) io now uid uname token None in
            if stored then
              \<lparr>bot_after = self\<lparr>storage := st\<rparr>,
               replies = [Testing_token, Configuration_successful], requests = reqs\<rparr>
            else
              \<lparr>bot_after = self\<lparr>storage := st\<rparr>,
               replies = [Testing_token, Failed_to_store], requests = reqs\<rparr>)"

definition bot_create_note ::
  "BlinkoTelegramBot \<Rightarrow> transport \<Rightarrow> sqlite_io \<Rightarrow> sqlite_io \<Rightarrow> nat \<Rightarrow> int \<Rightarrow> update
     \<Rightarrow> int \<Rightarrow> string \<Rightarrow> handled" where
  \<comment> \<open>\<open>BlinkoTelegramBot._create_note\<close>. \<open>io_get\<close> and \<open>io_put\<close> are what SQLite does in
      the two calls of the storage, \<open>sent_id\<close> is \<open>sent_message.message_id\<close>.\<close>
  "bot_create_note self tr io_get io_put now sent_id upd note_type type_name =
     (let uid = upd_user_id upd in
      case get_user_token (storage self) io_get uid of
        None \<Rightarrow> \<lparr>bot_after = self, replies = [Token_not_configured], requests = []\<rparr>
      | Some token \<Rightarrow>
          if token = [] then
            \<lparr>bot_after = self, replies = [Token_not_configured], requests = []\<rparr>
          else if upd_args upd = [] then
            \<lparr>bot_after = self, replies = [Provide_content type_name], requests = []\<rparr>
          else
            let note_content = py_strip (py_join '' '' (upd_args upd)) in
            if note_content = [] then
              \<lparr>bot_after = self, replies = [Content_empty type_name], requests = []\<rparr>
            else
              let (result, reqs) = create_note (blinko_api self) tr token note_content note_type in
              if success result then
                let note_info = (case note_id result of
                                   None \<Rightarrow> []
                                 | Some n \<Rightarrow> '' (ID: '' @ py_str n @ '')'');
                    out = [Chat_action_typing, Added_to_blinko type_name note_info (preview note_content)]
                in
                (case note_id result of
                   None \<Rightarrow> \<lparr>bot_after = self, replies = out, requests = reqs\<rparr>
                 | Some n \<Rightarrow>
                     if py_truthy n then
                       \<lparr>bot_after = self\<lparr>storage :=
                          fst (store_note_message (storage self) io_put now uid sent_id
                                 (upd_chat_id upd) (py_str n) note_type)\<rparr>,
                        replies = out, requests = reqs\<rparr>
                     else \<lparr>bot_after = self, replies = out, requests = reqs\<rparr>)
              else if error result = Some ''unauthorized'' then
                \<lparr>bot_after = self, replies = [Chat_action_typing, Authentication_failed],
                 requests = reqs\<rparr>
              else
                \<lparr>bot_after = self,
                 replies = [Chat_action_typing,
                            Failed_to_add type_name (case message result of Some m \<Rightarrow> m | None \<Rightarrow> [])],
                 requests = reqs\<rparr>)"

definition note_command ::
  "BlinkoTelegramBot \<Rightarrow> transport \<Rightarrow> sqlite_io \<Rightarrow> sqlite_io \<Rightarrow> nat \<Rightarrow> int \<Rightarrow> update \<Rightarrow> handled" where
  "note_command self tr io_get io_put now sent_id upd =
     bot_create_note self tr io_get io_put now sent_id upd 0 ''note''"

definition blinko_command ::
  "BlinkoTelegramBot \<Rightarrow> transport \<Rightarrow> sqlite_io \<Rightarrow> sqlite_io \<Rightarrow> nat \<Rightarrow> int \<Rightarrow> update \<Rightarrow> handled" where
  "blinko_command self tr io_get io_put now sent_id upd =
     bot_create_note self tr io_get io_put now sent_id upd 1 ''blinko''"

definition reset_command :: "BlinkoTelegramBot \<Rightarrow> sqlite_io \<Rightarrow> update \<Rightarrow> handled" where
  "reset_command self io upd =
     (let (st, removed) = remove_user_token (storage self) io (upd_user_id upd) in
      if removed then
        \<lparr>bot_after = self\<lparr>storage := st\<rparr>, replies = [Configuration_removed], requests = []\<rparr>
      else
        \<lparr>bot_after = self\<lparr>storage := st\<rparr>,
         replies = [Failed_to_remove_or_no_configuration_found], requests = []\<rparr>)"

definition handle_reply_update ::
  "BlinkoTelegramBot \<Rightarrow> transport \<Rightarrow> sqlite_io \<Rightarrow> sqlite_io \<Rightarrow> sqlite_io \<Rightarrow> nat \<Rightarrow> int \<Rightarrow> update
     \<Rightarrow> handled" where
  \<comment> \<open>\<open>io_get\<close>, \<open>io_note\<close> and \<open>io_put\<close> are what SQLite does in the three calls of the
      storage, \<open>sent_id\<close> is \<open>sent_message.message_id\<close>.\<close>
  "handle_reply_update self tr io_get io_note io_put now sent_id upd =
     (let uid = upd_user_id upd;
          quiet = \<lparr>bot_after = self, replies = [], requests = []\<rparr>
      in
      case get_user_token (storage self) io_get uid of
        None \<Rightarrow> \<lparr>bot_after = self, replies = [Token_not_configured], requests = []\<rparr>
      | Some token \<Rightarrow>
          if token = [] then
            \<lparr>bot_after = self, replies = [Token_not_configured], requests = []\<rparr>
          else
            (case upd_reply_to upd of
               None \<Rightarrow> quiet
             | Some (from_id, reply_id) \<Rightarrow>
                 if from_id \<noteq> upd_bot_id upd then quiet
                 else
                   (case get_note_from_reply (storage self) io_note uid reply_id (upd_chat_id upd) of
                      None \<Rightarrow> quiet
                    | Some (nid, ntype) \<Rightarrow>
                        let new_content = py_strip (upd_text upd) in
                        if new_content = [] then
                          \<lparr>bot_after = self, replies = [Update_content_empty], requests = []\<rparr>
                        else
                          let (result, reqs) =
                                update_note (blinko_api self) tr token nid new_content ntype;
                              type_name = (if ntype = 0 then ''note'' else ''blinko'')
                          in
                          if success result then
                            \<lparr>bot_after = self\<lparr>storage :=
                               fst (store_note_message (storage self) io_put now uid sent_id
                                      (upd_chat_id upd) nid ntype)\<rparr>,
                             replies = [Chat_action_typing, Updated type_name (preview new_content)],
                             requests = reqs\<rparr>
                          else if error result = Some ''unauthorized'' then
                            \<lparr>bot_after = self, replies = [Chat_action_typing, Authentication_failed],
                             requests = reqs\<rparr>
                          else
                            \<lparr>bot_after = self,
                             replies = [Chat_action_typing,
                                        Failed_to_update type_name
                                          (case message result of Some m \<Rightarrow> m | None \<Rightarrow> [])],
                             requests = reqs\<rparr>)))"

definition note_ids_nonempty :: "BlinkoTelegramBot \<Rightarrow> bool" where
  \<comment> \<open>Every row of \<open>note_messages\<close> has a \<open>note_id\<close> that is not the empty string.\<close>
  "note_ids_nonempty self = list_all (\<lambda>r. nm_note_id r \<noteq> []) (note_messages (db (storage self)))"

section \<open>Properties of the storage\<close>

subsection \<open>Lists of rows\<close>

lemma find_filter_other: "find (\<lambda>r. f r = k) (filter (\<lambda>r. f r \<noteq> k) xs) = None"
  by (induction xs) auto

lemma find_append_split:
  "find P (xs @ ys) = (case find P xs of None \<Rightarrow> find P ys | Some x \<Rightarrow> Some x)"
  by (induction xs) auto

lemma find_insert_or_replace_token:
  "find (\<lambda>x. user_id x = user_id r) (insert_or_replace_token r rows) = Some r"
  by (simp add: insert_or_replace_token_def find_append_split find_filter_other)

lemma length_filter_distinct_key:
  "distinct (map f xs) \<Longrightarrow> k \<in> f ` set xs \<Longrightarrow> Suc (length (filter (\<lambda>x. f x \<noteq> k) xs)) = length xs"
proof (induction xs)
  case Nil
  then show ?case by simp
next
  case (Cons a xs)
  show ?case
  proof (cases "f a = k")
    case True
    with Cons.prems have "k \<notin> f ` set xs" by auto
    then have "filter (\<lambda>x. f x \<noteq> k) xs = xs" by (auto simp: filter_id_conv)
    with True show ?thesis by simp
  next
    case False
    with Cons show ?thesis by auto
  qed
qed

lemma distinct_insert_or_replace_token:
  "distinct (map user_id rows) \<Longrightarrow> distinct (map user_id (insert_or_replace_token r rows))"
  by (auto simp: insert_or_replace_token_def distinct_map_filter)

lemma distinct_remove:
  "distinct (map user_id rows) \<Longrightarrow> distinct (map user_id (filter (\<lambda>r. user_id r \<noteq> uid) rows))"
  by (simp add: distinct_map_filter)

subsection \<open>Credentials\<close>

lemma one_row_per_user_empty_storage: "one_row_per_user (empty_storage k)"
  by (simp add: one_row_per_user_def empty_storage_def)

lemma remove_user_token_then_get:
  "snd (remove_user_token st Sqlite_ok uid)
   \<and> get_user_token (fst (remove_user_token st Sqlite_ok uid)) io uid = None"
  by (cases io) (simp_all add: remove_user_token_def get_user_token_def find_filter_other)

text \<open>
  Claim C1, as the spec states it: a row whose ciphertext cannot be decrypted under the
  current key makes \<open>get_credential\<close> fail with a \<open>DecryptionError\<close>, never with the
  result of "no credential stored". \<open>get_user_token\<close> does not do that. Here the row of
  user 42 was encrypted under another key than the current one; the result is \<open>None\<close>,
  which is also the result for a table with no row.
\<close>

theorem get_user_token_undecryptable_counterexample:
  "fernet_decrypt ''key-2'' (Fernet_token ''key-1'' ''secret-token'') = Inl DecryptionError
   \<and> get_user_token
        \<lparr>cipher = ''key-2'',
         db = \<lparr>user_tokens = [\<lparr>user_id = 42, username = ''ann'',
                                encrypted_token = Fernet_token ''key-1'' ''secret-token'',
                                blinko_url = None, created_at = 1, updated_at = 1\<rparr>],
               note_messages = []\<rparr>\<rparr> Sqlite_ok 42 = None
   \<and> get_user_token (empty_storage ''key-2'') Sqlite_ok 42 = None"
  by (simp add: get_user_token_def empty_storage_def)

text \<open>
  Claim C1, amended: for every user whose row holds ciphertext that cannot be decrypted
  under the current key, \<open>get_user_token\<close> returns \<open>None\<close>, whatever SQLite does, and
  that is the result it also returns once the row of the user has been removed. No
  \<open>DecryptionError\<close> reaches the caller.
\<close>

theorem get_user_token_undecryptable_is_None:
  assumes "find (\<lambda>r. user_id r = uid) (user_tokens (db st)) = Some r"
    and "fernet_decrypt (cipher st) (encrypted_token r) = Inl e"
  shows "get_user_token st io uid = None
    \<and> get_user_token (fst (remove_user_token st Sqlite_ok uid)) io uid = None"
  using assms
  by (cases io) (simp_all add: get_user_token_def remove_user_token_def find_filter_other)

theorem get_user_token_undecryptable_is_None_witness:
  "find (\<lambda>r. user_id r = 42) [\<lparr>user_id = 42, username = ''ann'',
                                encrypted_token = Fernet_token ''key-1'' ''secret-token'',
                                blinko_url = None, created_at = 1, updated_at = 1\<rparr>]
     = Some \<lparr>user_id = 42, username = ''ann'',
                                encrypted_token = Fernet_token ''key-1'' ''secret-token'',
                                blinko_url = None, created_at = 1, updated_at = 1\<rparr>
   \<and> fernet_decrypt ''key-2'' (Fernet_token ''key-1'' ''secret-token'') = Inl DecryptionError
   \<and> get_user_token
        \<lparr>cipher = ''key-2'',
         db = \<lparr>user_tokens = [\<lparr>user_id = 42, username = ''ann'',
                                encrypted_token = Fernet_token ''key-1'' ''secret-token'',
                                blinko_url = None, created_at = 1, updated_at = 1\<rparr>],
               note_messages = []\<rparr>\<rparr> Sqlite_ok 42 = None"
  using get_user_token_undecryptable_is_None
    [of 42 "\<lparr>cipher = ''key-2'',
         db = \<lparr>user_tokens = [\<lparr>user_id = 42, username = ''ann'',
                                encrypted_token = Fernet_token ''key-1'' ''secret-token'',
                                blinko_url = None, created_at = 1, updated_at = 1\<rparr>],
               note_messages = []\<rparr>\<rparr>"
        "\<lparr>user_id = 42, username = ''ann'',
                                encrypted_token = Fernet_token ''key-1'' ''secret-token'',
                                blinko_url = None, created_at = 1, updated_at = 1\<rparr>"
        DecryptionError Sqlite_ok]
  by simp

text \<open>
  Claim C2 at the input where the code departs from it: \<open>remove_user_token\<close> for a user
  with no row, on a table with no rows at all, returns \<open>True\<close> (the claim says false),
  and leaves the storage as it was.
\<close>

theorem remove_user_token_absent_returns_True:
  "remove_user_token (empty_storage ''key'') Sqlite_ok 7 = (empty_storage ''key'', True)
   \<and> get_user_token (empty_storage ''key'') Sqlite_ok 7 = None"
  by (simp add: remove_user_token_def empty_storage_def get_user_token_def)

text \<open>
  Claim C7: for every secret \<open>s\<close> that is not empty and every key \<open>k\<close>, decrypting
  \<open>encrypt(s, k)\<close> under \<open>k\<close> gives \<open>s\<close>; for all keys \<open>k1\<close>, \<open>k2\<close> that differ,
  decrypting \<open>encrypt(s, k1)\<close> under \<open>k2\<close> fails with \<open>DecryptionError\<close>; and
  \<open>store_user_token\<close> followed by \<open>get_user_token\<close> for the same user, with the same
  key and with SQLite not failing, returns the secret that was stored, for every
  string.
\<close>

theorem store_then_get_returns_secret:
  "(s \<noteq> [] \<longrightarrow> fernet_decrypt k (fernet_encrypt k s) = Inr s)
   \<and> (k1 \<noteq> k2 \<longrightarrow> fernet_decrypt k2 (fernet_encrypt k1 s) = Inl DecryptionError)
   \<and> get_user_token (fst (store_user_token st Sqlite_ok now uid uname s url)) Sqlite_ok uid = Some s"
proof -
  let ?r = "\<lparr>user_id = uid, username = uname, encrypted_token = fernet_encrypt (cipher st) s,
            blinko_url = url, created_at = now, updated_at = now\<rparr>"
  have "find (\<lambda>x. user_id x = uid) (insert_or_replace_token ?r (user_tokens (db st))) = Some ?r"
    using find_insert_or_replace_token [of ?r "user_tokens (db st)"] by simp
  then have "get_user_token (fst (store_user_token st Sqlite_ok now uid uname s url)) Sqlite_ok uid
      = Some s"
    by (simp add: get_user_token_def store_user_token_def fernet_encrypt_def)
  then show ?thesis by (simp add: fernet_encrypt_def)
qed

theorem store_then_get_returns_secret_witness:
  "''secret-token'' \<noteq> []
   \<and> fernet_decrypt ''key-1'' (fernet_encrypt ''key-1'' ''secret-token'') = Inr ''secret-token''
   \<and> ''key-1'' \<noteq> ''key-2''
   \<and> fernet_decrypt ''key-2'' (fernet_encrypt ''key-1'' ''secret-token'') = Inl DecryptionError
   \<and> get_user_token (fst (store_user_token (empty_storage ''key-1'') Sqlite_ok 1 42 ''ann''
        ''secret-token'' None)) Sqlite_ok 42 = Some ''secret-token''"
  using store_then_get_returns_secret
    [of "''secret-token''" "''key-1''" "''key-1''" "''key-2''" "empty_storage ''key-1''" 1 42 "''ann''" None]
  by simp

text \<open>
  Claim C8: the table \<open>user_tokens\<close> has at most one row for each \<open>user_id\<close>. This
  holds of a table kept by \<open>store_user_token\<close> and \<open>remove_user_token\<close>: both keep it,
  whatever SQLite does. For a \<open>user_id\<close> that has a row already, \<open>store_user_token\<close>
  leaves \<open>get_user_count\<close> as it was. When the statement runs, the rows of the user
  afterwards are the one new row, every column of which comes from the call (none
  from the row replaced), and the rows of the other users are untouched.
\<close>

theorem store_user_token_one_row_per_user:
  assumes "one_row_per_user st"
  shows "one_row_per_user (fst (store_user_token st io now uid uname token url))
    \<and> one_row_per_user (fst (remove_user_token st io uid))
    \<and> (uid \<in> user_id ` set (user_tokens (db st)) \<longrightarrow>
         get_user_count (fst (store_user_token st io now uid uname token url)) Sqlite_ok
           = get_user_count st Sqlite_ok)
    \<and> filter (\<lambda>r. user_id r = uid)
         (user_tokens (db (fst (store_user_token st Sqlite_ok now uid uname token url))))
       = [\<lparr>user_id = uid, username = uname, encrypted_token = fernet_encrypt (cipher st) token,
           blinko_url = url, created_at = now, updated_at = now\<rparr>]
    \<and> filter (\<lambda>r. user_id r \<noteq> uid)
         (user_tokens (db (fst (store_user_token st Sqlite_ok now uid uname token url))))
       = filter (\<lambda>r. user_id r \<noteq> uid) (user_tokens (db st))"
proof -
  let ?rows = "user_tokens (db st)"
  have d: "distinct (map user_id ?rows)" using assms by (simp add: one_row_per_user_def)
  have 1: "one_row_per_user (fst (store_user_token st io now uid uname token url))"
    using d by (cases io) (simp_all add: store_user_token_def one_row_per_user_def
        distinct_insert_or_replace_token)
  have 2: "one_row_per_user (fst (remove_user_token st io uid))"
    using d by (cases io) (simp_all add: remove_user_token_def one_row_per_user_def distinct_remove)
  have 3: "uid \<in> user_id ` set ?rows \<longrightarrow>
         get_user_count (fst (store_user_token st io now uid uname token url)) Sqlite_ok
           = get_user_count st Sqlite_ok"
  proof
    assume "uid \<in> user_id ` set ?rows"
    from length_filter_distinct_key[OF d this]
    show "get_user_count (fst (store_user_token st io now uid uname token url)) Sqlite_ok
           = get_user_count st Sqlite_ok"
      by (cases io) (simp_all add: store_user_token_def get_user_count_def insert_or_replace_token_def)
  qed
  have 4: "filter (\<lambda>r. user_id r = uid)
         (user_tokens (db (fst (store_user_token st Sqlite_ok now uid uname token url))))
       = [\<lparr>user_id = uid, username = uname, encrypted_token = fernet_encrypt (cipher st) token,
           blinko_url = url, created_at = now, updated_at = now\<rparr>]"
    by (simp add: store_user_token_def insert_or_replace_token_def filter_empty_conv)
  have 5: "filter (\<lambda>r. user_id r \<noteq> uid)
         (user_tokens (db (fst (store_user_token st Sqlite_ok now uid uname token url))))
       = filter (\<lambda>r. user_id r \<noteq> uid) (user_tokens (db st))"
    by (simp add: store_user_token_def insert_or_replace_token_def)
  from 1 2 3 4 5 show ?thesis by blast
qed

theorem store_user_token_one_row_per_user_witness:
  "one_row_per_user
     \<lparr>cipher = ''key'',
      db = \<lparr>user_tokens = [\<lparr>user_id = 42, username = ''ann'',
                             encrypted_token = Fernet_token ''key'' ''old-token-123'',
                             blinko_url = Some ''https://notes.example/api/v1'',
                             created_at = 1, updated_at = 1\<rparr>],
            note_messages = []\<rparr>\<rparr>
   \<and> (42::int) \<in> user_id ` set [\<lparr>user_id = 42, username = ''ann'',
                             encrypted_token = Fernet_token ''key'' ''old-token-123'',
                             blinko_url = Some ''https://notes.example/api/v1'',
                             created_at = 1, updated_at = 1\<rparr>]
   \<and> get_user_count (fst (store_user_token
         \<lparr>cipher = ''key'',
          db = \<lparr>user_tokens = [\<lparr>user_id = 42, username = ''ann'',
                             encrypted_token = Fernet_token ''key'' ''old-token-123'',
                             blinko_url = Some ''https://notes.example/api/v1'',
                             created_at = 1, updated_at = 1\<rparr>],
            note_messages = []\<rparr>\<rparr> Sqlite_ok 5 42 ''ann'' ''new-token-456'' None)) Sqlite_ok = 1
   \<and> user_tokens (db (fst (store_user_token
         \<lparr>cipher = ''key'',
          db = \<lparr>user_tokens = [\<lparr>user_id = 42, username = ''ann'',
                             encrypted_token = Fernet_token ''key'' ''old-token-123'',
                             blinko_url = Some ''https://notes.example/api/v1'',
                             created_at = 1, updated_at = 1\<rparr>],
            note_messages = []\<rparr>\<rparr> Sqlite_ok 5 42 ''ann'' ''new-token-456'' None)))
       = [\<lparr>user_id = 42, username = ''ann'',
           encrypted_token = Fernet_token ''key'' ''new-token-456'',
           blinko_url = None, created_at = 5, updated_at = 5\<rparr>]"
  using store_user_token_one_row_per_user
    [of "\<lparr>cipher = ''key'',
          db = \<lparr>user_tokens = [\<lparr>user_id = 42, username = ''ann'',
                             encrypted_token = Fernet_token ''key'' ''old-token-123'',
                             blinko_url = Some ''https://notes.example/api/v1'',
                             created_at = 1, updated_at = 1\<rparr>],
            note_messages = []\<rparr>\<rparr>" Sqlite_ok 5 42 "''ann''" "''new-token-456''" None]
  by (simp add: one_row_per_user_def get_user_count_def store_user_token_def
      insert_or_replace_token_def fernet_encrypt_def)

section \<open>Properties of the client\<close>

subsection \<open>Trimming\<close>

lemma py_strip_Nil: "py_strip [] = []"
  by (simp add: py_strip_def py_rstrip_def py_lstrip_def)

lemma py_strip_empty_iff: "py_strip s = [] \<longleftrightarrow> (\<forall>c\<in>set s. py_isspace c)"
proof
  assume "py_strip s = []"
  then have a: "\<forall>c\<in>set (dropWhile py_isspace s). py_isspace c"
    by (simp add: py_strip_def py_rstrip_def py_lstrip_def dropWhile_eq_Nil_conv)
  have "dropWhile py_isspace s = []"
  proof (rule ccontr)
    assume n: "dropWhile py_isspace s \<noteq> []"
    then have "\<not> py_isspace (hd (dropWhile py_isspace s))"
      by (rule hd_dropWhile)
    moreover have "hd (dropWhile py_isspace s) \<in> set (dropWhile py_isspace s)"
      using n by simp
    ultimately show False using a by blast
  qed
  then show "\<forall>c\<in>set s. py_isspace c"
    by (simp add: dropWhile_eq_Nil_conv)
next
  assume "\<forall>c\<in>set s. py_isspace c"
  then have "dropWhile py_isspace s = []"
    by (simp add: dropWhile_eq_Nil_conv)
  then show "py_strip s = []"
    by (simp only: py_strip_def py_rstrip_def py_lstrip_def rev.simps dropWhile.simps)
qed


lemma create_note_sends:
  assumes "py_strip content \<noteq> []"
  shows "create_note api tr token content note_type
      = (upsert_result PyNone (tr (create_note_request api token content note_type)),
         [create_note_request api token content note_type])"
proof -
  from assms have "content \<noteq> []"
    by (auto simp: py_strip_def py_rstrip_def py_lstrip_def)
  with assms show ?thesis by (simp add: create_note_def create_note_request_def Let_def)
qed

subsection \<open>Certificate verification\<close>

text \<open>
  Claim C3, as the spec states it: the default configuration of the client verifies TLS
  certificates. The client that \<open>BlinkoAPI.__init__\<close> builds does not.
\<close>

theorem BlinkoAPI_init_verify_counterexample:
  "\<not> verify (session (BlinkoAPI_init ''https://notes.example/api/v1''))"
  by (simp add: BlinkoAPI_init_def)

text \<open>
  Claim C3, amended: in the default configuration of the client, that is in every
  client that \<open>BlinkoAPI.__init__\<close> builds, for any base URL, certificate verification
  is switched off in the session (\<open>session.verify\<close> is \<open>False\<close>), and the warning for
  insecure requests is disabled, not produced. The constructor takes the base URL
  only, so nothing opts in.
\<close>

theorem BlinkoAPI_init_never_verifies:
  "\<not> verify (session (BlinkoAPI_init url))
   \<and> insecure_request_warning_disabled (BlinkoAPI_init url)"
  by (simp add: BlinkoAPI_init_def)

subsection \<open>Creating and updating notes\<close>

text \<open>
  Claim C4: for every credential and every content that is empty after trimming (the
  empty string and the strings of white space only, by \<open>py_strip_empty_iff\<close>),
  \<open>create_note\<close> and \<open>update_note\<close> return the validation error at once; the list of
  the requests sent is empty, whatever the transport would have answered.
\<close>

theorem empty_content_is_rejected_without_request:
  assumes "py_strip content = []"
  shows "create_note api tr token content note_type
           = (Err ''validation'' ''Note content cannot be empty'', [])
       \<and> update_note api tr token nid content note_type
           = (Err ''validation'' ''Note content cannot be empty'', [])"
  using assms by (simp add: create_note_def update_note_def)

theorem empty_content_is_rejected_without_request_witness:
  "py_strip ''   '' = []
   \<and> create_note (BlinkoAPI_init ''https://notes.example/api/v1'') (\<lambda>req. Response 200 (Inr (PyDict [(''id'', PyInt 7)])))
        ''secret-token'' ''   '' 0
      = (Err ''validation'' ''Note content cannot be empty'', [])
   \<and> update_note (BlinkoAPI_init ''https://notes.example/api/v1'') (\<lambda>req. Response 200 (Inr (PyDict [(''id'', PyInt 7)])))
        ''secret-token'' ''7'' ''   '' 0
      = (Err ''validation'' ''Note content cannot be empty'', [])"
  using empty_content_is_rejected_without_request
    [of "''   ''" "BlinkoAPI_init ''https://notes.example/api/v1''"
        "\<lambda>req. Response 200 (Inr (PyDict [(''id'', PyInt 7)]))" "''secret-token''" 0 "''7''"]
  by (simp add: py_strip_def py_rstrip_def py_lstrip_def py_isspace_def)



subsection \<open>Validating a credential\<close>



section \<open>Properties of the handlers\<close>

subsection \<open>Configuring\<close>

text \<open>
  Claim C9: when the token of a configure request, that is its arguments joined by
  blanks and trimmed, has fewer than 10 characters, \<open>configure_command\<close> stops at once:
  no request is sent, so the token is not tested, and the storage is as before. The
  answer is the request for a token when there is no argument, and the message that
  the token is too short otherwise.
\<close>

theorem configure_command_short_token:
  assumes "length (py_strip (py_join '' '' (upd_args upd))) < 10"
  shows "requests (configure_command self tr io now upd) = []
       \<and> bot_after (configure_command self tr io now upd) = self
       \<and> replies (configure_command self tr io now upd)
           = (if upd_args upd = [] then [Provide_token] else [Token_too_short])"
  using assms by (simp add: configure_command_def Let_def)

theorem configure_command_short_token_witness:
  "length (py_strip (py_join '' '' [''abc'', ''def''])) < 10
   \<and> requests (configure_command
        \<lparr>storage = empty_storage ''key'', blinko_api = BlinkoAPI_init ''https://notes.example/api/v1''\<rparr>
        (\<lambda>req. Response 200 (Inl ''no JSON'')) Sqlite_ok 1
        \<lparr>upd_user_id = 42, upd_username = Some ''ann'', upd_first_name = ''Ann'', upd_chat_id = 5,
         upd_args = [''abc'', ''def''], upd_text = ''/configure abc def'', upd_reply_to = None,
         upd_bot_id = 99\<rparr>) = []
   \<and> bot_after (configure_command
        \<lparr>storage = empty_storage ''key'', blinko_api = BlinkoAPI_init ''https://notes.example/api/v1''\<rparr>
        (\<lambda>req. Response 200 (Inl ''no JSON'')) Sqlite_ok 1
        \<lparr>upd_user_id = 42, upd_username = Some ''ann'', upd_first_name = ''Ann'', upd_chat_id = 5,
         upd_args = [''abc'', ''def''], upd_text = ''/configure abc def'', upd_reply_to = None,
         upd_bot_id = 99\<rparr>)
       = \<lparr>storage = empty_storage ''key'', blinko_api = BlinkoAPI_init ''https://notes.example/api/v1''\<rparr>
   \<and> replies (configure_command
        \<lparr>storage = empty_storage ''key'', blinko_api = BlinkoAPI_init ''https://notes.example/api/v1''\<rparr>
        (\<lambda>req. Response 200 (Inl ''no JSON'')) Sqlite_ok 1
        \<lparr>upd_user_id = 42, upd_username = Some ''ann'', upd_first_name = ''Ann'', upd_chat_id = 5,
         upd_args = [''abc'', ''def''], upd_text = ''/configure abc def'', upd_reply_to = None,
         upd_bot_id = 99\<rparr>) = [Token_too_short]"
  using configure_command_short_token
    [of "\<lparr>upd_user_id = 42, upd_username = Some ''ann'', upd_first_name = ''Ann'', upd_chat_id = 5,
         upd_args = [''abc'', ''def''], upd_text = ''/configure abc def'', upd_reply_to = None,
         upd_bot_id = 99\<rparr>"
        "\<lparr>storage = empty_storage ''key'', blinko_api = BlinkoAPI_init ''https://notes.example/api/v1''\<rparr>"
        "\<lambda>req. Response 200 (Inl ''no JSON'')" Sqlite_ok 1]
  by (simp add: py_strip_def py_rstrip_def py_lstrip_def py_isspace_def)

subsection \<open>Identifiers of notes\<close>

lemma nat_digits_nonempty: "nat_digits n \<noteq> []"
  by (subst nat_digits.simps) simp

lemma int_str_nonempty: "int_str i \<noteq> []"
  by (simp add: int_str_def nat_digits_nonempty)

lemma py_truthy_str_nonempty: "py_truthy v \<Longrightarrow> py_str v \<noteq> []"
  by (cases v) (simp_all add: int_str_nonempty)

lemma insert_or_replace_note_nonempty:
  assumes "list_all (\<lambda>r. nm_note_id r \<noteq> []) rows" and "nm_note_id r \<noteq> []"
  shows "list_all (\<lambda>r. nm_note_id r \<noteq> []) (insert_or_replace_note r rows)"
  using assms by (simp add: insert_or_replace_note_def list_all_iff)

lemma store_note_message_nonempty:
  assumes "note_ids_nonempty self" and "nid \<noteq> []"
  shows "note_ids_nonempty
           (self\<lparr>storage := fst (store_note_message (storage self) io now uid mid cid nid ntype)\<rparr>)"
proof (cases io)
  case Sqlite_ok
  then show ?thesis
    using assms insert_or_replace_note_nonempty
      [of "note_messages (db (storage self))"
          "\<lparr>nm_user_id = uid, nm_message_id = mid, nm_chat_id = cid,
            nm_note_id = nid, nm_note_type = ntype, nm_created_at = now\<rparr>"]
    by (simp add: note_ids_nonempty_def store_note_message_def)
next
  case Sqlite_raises
  then show ?thesis using assms by (simp add: note_ids_nonempty_def store_note_message_def)
qed

lemma get_note_from_reply_nonempty:
  assumes "note_ids_nonempty self"
    and "get_note_from_reply (storage self) io uid mid cid = Some (nid, ntype)"
  shows "nid \<noteq> []"
proof -
  from assms(2) obtain r where
    f: "find (\<lambda>r. nm_user_id r = uid \<and> nm_message_id r = mid \<and> nm_chat_id r = cid)
          (note_messages (db (storage self))) = Some r" and n: "nm_note_id r = nid"
    by (cases io) (auto simp: get_note_from_reply_def split: option.splits)
  from f have "r \<in> set (note_messages (db (storage self)))"
    by (auto simp: find_Some_iff)
  with assms(1) n show ?thesis by (auto simp: note_ids_nonempty_def list_all_iff)
qed

lemma bot_create_note_cases:
  "bot_after (bot_create_note self tr io_get io_put now sent_id upd note_type type_name) = self
   \<or> (\<exists>token d n.
        get_user_token (storage self) io_get (upd_user_id upd) = Some token
        \<and> fst (create_note (blinko_api self) tr token (py_strip (py_join '' '' (upd_args upd)))
                 note_type) = Ok_note d n
        \<and> py_truthy n
        \<and> bot_after (bot_create_note self tr io_get io_put now sent_id upd note_type type_name)
            = self\<lparr>storage := fst (store_note_message (storage self) io_put now (upd_user_id upd)
                                       sent_id (upd_chat_id upd) (py_str n) note_type)\<rparr>)"
proof (cases "get_user_token (storage self) io_get (upd_user_id upd)")
  case None
  then show ?thesis by (simp add: bot_create_note_def)
next
  case (Some token)
  obtain result reqs where
    cr: "create_note (blinko_api self) tr token (py_strip (py_join '' '' (upd_args upd))) note_type
           = (result, reqs)"
    by (cases "create_note (blinko_api self) tr token (py_strip (py_join '' '' (upd_args upd))) note_type")
  show ?thesis
  proof (cases result)
    case (Ok_note d n)
    with Some cr show ?thesis by (simp add: bot_create_note_def Let_def)
  next
    case (Ok_message m)
    with Some cr show ?thesis by (simp add: bot_create_note_def Let_def)
  next
    case (Err e m)
    with Some cr show ?thesis by (simp add: bot_create_note_def Let_def)
  next
    case (Err_status e m c)
    with Some cr show ?thesis by (simp add: bot_create_note_def Let_def)
  qed
qed

lemma bot_create_note_keeps_nonempty:
  assumes "note_ids_nonempty self"
  shows "note_ids_nonempty
           (bot_after (bot_create_note self tr io_get io_put now sent_id upd note_type type_name))"
  using bot_create_note_cases [of self tr io_get io_put now sent_id upd note_type type_name]
    assms
  by (auto simp: store_note_message_nonempty py_truthy_str_nonempty)

lemma handle_reply_update_cases:
  "bot_after (handle_reply_update self tr io_get io_note io_put now sent_id upd) = self
   \<or> (\<exists>from_id reply_id nid ntype.
        upd_reply_to upd = Some (from_id, reply_id)
        \<and> get_note_from_reply (storage self) io_note (upd_user_id upd) reply_id (upd_chat_id upd)
            = Some (nid, ntype)
        \<and> bot_after (handle_reply_update self tr io_get io_note io_put now sent_id upd)
            = self\<lparr>storage := fst (store_note_message (storage self) io_put now (upd_user_id upd)
                                       sent_id (upd_chat_id upd) nid ntype)\<rparr>)"
proof (cases "get_user_token (storage self) io_get (upd_user_id upd)")
  case None
  then show ?thesis by (simp add: handle_reply_update_def)
next
  case tok: (Some token)
  show ?thesis
  proof (cases "upd_reply_to upd")
    case None
    with tok show ?thesis by (simp add: handle_reply_update_def Let_def)
  next
    case (Some p)
    obtain from_id reply_id where p: "p = (from_id, reply_id)" by (cases p)
    show ?thesis
    proof (cases "get_note_from_reply (storage self) io_note (upd_user_id upd) reply_id
                    (upd_chat_id upd)")
      case None
      with tok Some p show ?thesis by (simp add: handle_reply_update_def Let_def)
    next
      case found: (Some q)
      obtain nid ntype where q: "q = (nid, ntype)" by (cases q)
      obtain result reqs where
        "update_note (blinko_api self) tr token nid (py_strip (upd_text upd)) ntype = (result, reqs)"
        by (cases "update_note (blinko_api self) tr token nid (py_strip (upd_text upd)) ntype")
      with tok Some p found q show ?thesis
        by (simp add: handle_reply_update_def Let_def)
    qed
  qed
qed

lemma handle_reply_update_keeps_nonempty:
  assumes "note_ids_nonempty self"
  shows "note_ids_nonempty
           (bot_after (handle_reply_update self tr io_get io_note io_put now sent_id upd))"
proof -
  from handle_reply_update_cases [of self tr io_get io_note io_put now sent_id upd]
  consider
    (same) "bot_after (handle_reply_update self tr io_get io_note io_put now sent_id upd) = self"
  | (stored) reply_id nid ntype where
      "get_note_from_reply (storage self) io_note (upd_user_id upd) reply_id (upd_chat_id upd)
         = Some (nid, ntype)"
      "bot_after (handle_reply_update self tr io_get io_note io_put now sent_id upd)
         = self\<lparr>storage := fst (store_note_message (storage self) io_put now (upd_user_id upd)
                                    sent_id (upd_chat_id upd) nid ntype)\<rparr>"
    by blast
  then show ?thesis
  proof cases
    case same
    with assms show ?thesis by simp
  next
    case stored
    from get_note_from_reply_nonempty [OF assms stored(1)] have "nid \<noteq> []" .
    from store_note_message_nonempty [OF assms this] stored(2) show ?thesis by simp
  qed
qed

lemma bot_create_note_without_id:
  assumes "get_user_token (storage self) io_get (upd_user_id upd) = Some token"
    and "token \<noteq> []"
    and "upd_args upd \<noteq> []"
    and "py_strip (py_join '' '' (upd_args upd)) \<noteq> []"
    and "fst (create_note (blinko_api self) tr token (py_strip (py_join '' '' (upd_args upd)))
               note_type) = Ok_note d n"
    and "\<not> py_truthy n"
  shows "bot_after (bot_create_note self tr io_get io_put now sent_id upd note_type type_name) = self
       \<and> replies (bot_create_note self tr io_get io_put now sent_id upd note_type type_name)
           = [Chat_action_typing,
              Added_to_blinko type_name ('' (ID: '' @ py_str n @ '')'')
                (preview (py_strip (py_join '' '' (upd_args upd))))]"
proof -
  obtain reqs where
    "create_note (blinko_api self) tr token (py_strip (py_join '' '' (upd_args upd))) note_type
       = (Ok_note d n, reqs)"
    using assms(5)
    by (cases "create_note (blinko_api self) tr token (py_strip (py_join '' '' (upd_args upd))) note_type")
       simp
  with assms show ?thesis by (simp add: bot_create_note_def Let_def)
qed

lemma dropWhile_unchanged: "xs = [] \<or> \<not> P (hd xs) \<Longrightarrow> dropWhile P xs = xs"
  by (cases xs) auto

lemma py_strip_idem: "py_strip (py_strip s) = py_strip s"
proof -
  define u where "u = dropWhile py_isspace s"
  define w where "w = dropWhile py_isspace (rev u)"
  have t: "py_strip s = rev w"
    by (simp add: py_strip_def py_rstrip_def py_lstrip_def u_def w_def)
  have w_hd: "w = [] \<or> \<not> py_isspace (hd w)"
    unfolding w_def using hd_dropWhile [of py_isspace "rev u"] by blast
  have "rev w = [] \<or> \<not> py_isspace (hd (rev w))"
  proof (cases "w = []")
    case True
    then show ?thesis by simp
  next
    case False
    have "takeWhile py_isspace (rev u) @ w = rev u"
      unfolding w_def by (rule takeWhile_dropWhile_id)
    with False have "last w = last (rev u)"
      by (metis last_appendR)
    moreover from False have "u \<noteq> []" by (auto simp: w_def)
    ultimately have "last w = hd u" by (simp add: last_rev)
    moreover have "\<not> py_isspace (hd u)"
      using \<open>u \<noteq> []\<close> unfolding u_def by (rule hd_dropWhile)
    ultimately show ?thesis using False by (simp add: hd_rev)
  qed
  then have 1: "dropWhile py_isspace (rev w) = rev w" by (rule dropWhile_unchanged)
  from w_hd have 2: "dropWhile py_isspace w = w" by (rule dropWhile_unchanged)
  have "py_strip (rev w) = rev w"
    by (simp add: py_strip_def py_rstrip_def py_lstrip_def 1 2)
  with t show ?thesis by simp
qed

lemma bot_create_note_response_without_id:
  assumes "get_user_token (storage self) io_get (upd_user_id upd) = Some token"
    and "token \<noteq> []"
    and "upd_args upd \<noteq> []"
    and "py_strip (py_join '' '' (upd_args upd)) = content"
    and "content \<noteq> []"
    and "tr (create_note_request (blinko_api self) token content note_type)
           = Response sc (Inr (PyDict kvs))"
    and "sc < 400"
    and "map_of (rev kvs) ''id'' = None"
  shows "bot_create_note self tr io_get io_put now sent_id upd note_type type_name
      = \<lparr>bot_after = self,
         replies = [Chat_action_typing,
                    Added_to_blinko type_name '' (ID: None)'' (preview content)],
         requests = [create_note_request (blinko_api self) token content note_type]\<rparr>"
proof -
  from assms(4,5) have "py_strip content \<noteq> []"
    using py_strip_idem [of "py_join '' '' (upd_args upd)"] by simp
  from create_note_sends [OF this, of "blinko_api self" tr token note_type] assms(6,7,8)
  have "create_note (blinko_api self) tr token content note_type
      = (Ok_note (PyDict kvs) PyNone, [create_note_request (blinko_api self) token content note_type])"
    by (simp add: upsert_result_def)
  with assms(1-5) show ?thesis
    by (simp add: bot_create_note_def Let_def)
qed

text \<open>
  Claim C10: \<open>_create_note\<close> either leaves the bot and its storage as they were, or
  \<open>create_note\<close> has returned a success whose \<open>note_id\<close> is true in the sense of
  Python, and then the one row written holds \<open>str\<close> of that identifier, which is not
  the empty string. If the response is a JSON object with no member \<open>id\<close>, the note is
  still reported as added, and nothing is written. So a table \<open>note_messages\<close> in which
  every \<open>note_id\<close> is non-empty stays so under \<open>_create_note\<close>, and under
  \<open>handle_reply_update\<close> as well, the only other writer, which stores the \<open>note_id\<close> of
  a row it has read.
\<close>

theorem bot_create_note_correlation:
  "(bot_after (bot_create_note self tr io_get io_put now sent_id upd note_type type_name) = self
    \<or> (\<exists>token d n.
         get_user_token (storage self) io_get (upd_user_id upd) = Some token
         \<and> fst (create_note (blinko_api self) tr token (py_strip (py_join '' '' (upd_args upd)))
                  note_type) = Ok_note d n
         \<and> py_truthy n \<and> py_str n \<noteq> []
         \<and> bot_after (bot_create_note self tr io_get io_put now sent_id upd note_type type_name)
             = self\<lparr>storage := fst (store_note_message (storage self) io_put now (upd_user_id upd)
                                        sent_id (upd_chat_id upd) (py_str n) note_type)\<rparr>))
   \<and> (get_user_token (storage self) io_get (upd_user_id upd) = Some token
       \<and> token \<noteq> [] \<and> upd_args upd \<noteq> []
       \<and> py_strip (py_join '' '' (upd_args upd)) = content \<and> content \<noteq> []
       \<and> tr (create_note_request (blinko_api self) token content note_type)
           = Response sc (Inr (PyDict kvs))
       \<and> sc < 400 \<and> map_of (rev kvs) ''id'' = None
       \<longrightarrow> bot_create_note self tr io_get io_put now sent_id upd note_type type_name
           = \<lparr>bot_after = self,
              replies = [Chat_action_typing,
                         Added_to_blinko type_name '' (ID: None)'' (preview content)],
              requests = [create_note_request (blinko_api self) token content note_type]\<rparr>)
   \<and> (note_ids_nonempty self \<longrightarrow>
        note_ids_nonempty
          (bot_after (bot_create_note self tr io_get io_put now sent_id upd note_type type_name))
        \<and> note_ids_nonempty
          (bot_after (handle_reply_update self tr io_get io_note io_put now sent_id upd)))"
proof -
  have 1: "bot_after (bot_create_note self tr io_get io_put now sent_id upd note_type type_name) = self
    \<or> (\<exists>token d n.
         get_user_token (storage self) io_get (upd_user_id upd) = Some token
         \<and> fst (create_note (blinko_api self) tr token (py_strip (py_join '' '' (upd_args upd)))
                  note_type) = Ok_note d n
         \<and> py_truthy n \<and> py_str n \<noteq> []
         \<and> bot_after (bot_create_note self tr io_get io_put now sent_id upd note_type type_name)
             = self\<lparr>storage := fst (store_note_message (storage self) io_put now (upd_user_id upd)
                                        sent_id (upd_chat_id upd) (py_str n) note_type)\<rparr>)"
    using bot_create_note_cases [of self tr io_get io_put now sent_id upd note_type type_name]
      py_truthy_str_nonempty by blast
  have 2: "get_user_token (storage self) io_get (upd_user_id upd) = Some token
       \<and> token \<noteq> [] \<and> upd_args upd \<noteq> []
       \<and> py_strip (py_join '' '' (upd_args upd)) = content \<and> content \<noteq> []
       \<and> tr (create_note_request (blinko_api self) token content note_type)
           = Response sc (Inr (PyDict kvs))
       \<and> sc < 400 \<and> map_of (rev kvs) ''id'' = None
       \<longrightarrow> bot_create_note self tr io_get io_put now sent_id upd note_type type_name
           = \<lparr>bot_after = self,
              replies = [Chat_action_typing,
                         Added_to_blinko type_name '' (ID: None)'' (preview content)],
              requests = [create_note_request (blinko_api self) token content note_type]\<rparr>"
    using bot_create_note_response_without_id
      [of self io_get upd token content tr note_type sc kvs io_put now sent_id type_name]
    by blast
  have 3: "note_ids_nonempty self \<longrightarrow>
        note_ids_nonempty
          (bot_after (bot_create_note self tr io_get io_put now sent_id upd note_type type_name))
        \<and> note_ids_nonempty
          (bot_after (handle_reply_update self tr io_get io_note io_put now sent_id upd))"
    using bot_create_note_keeps_nonempty handle_reply_update_keeps_nonempty by blast
  from 1 2 3 show ?thesis by (rule conjI [OF _ conjI])
qed

theorem bot_create_note_correlation_witness:
  "get_user_token
     \<lparr>cipher = ''key'',
      db = \<lparr>user_tokens = [\<lparr>user_id = 42, username = ''ann'',
                             encrypted_token = Fernet_token ''key'' ''secret-token'',
                             blinko_url = None, created_at = 1, updated_at = 1\<rparr>],
            note_messages = [\<lparr>nm_user_id = 42, nm_message_id = 100, nm_chat_id = 5,
                               nm_note_id = ''3'', nm_note_type = 0, nm_created_at = 2\<rparr>]\<rparr>\<rparr>
     Sqlite_ok 42 = Some ''secret-token''
   \<and> ''secret-token'' \<noteq> [] \<and> [''Buy'', ''milk''] \<noteq> []
   \<and> py_strip (py_join '' '' [''Buy'', ''milk'']) = ''Buy milk'' \<and> ''Buy milk'' \<noteq> []
   \<and> (200::int) < 400 \<and> map_of (rev [(''content'', PyStr ''Buy milk'')]) ''id'' = None
   \<and> note_ids_nonempty
        \<lparr>storage = \<lparr>cipher = ''key'',
           db = \<lparr>user_tokens = [\<lparr>user_id = 42, username = ''ann'',
                             encrypted_token = Fernet_token ''key'' ''secret-token'',
                             blinko_url = None, created_at = 1, updated_at = 1\<rparr>],
            note_messages = [\<lparr>nm_user_id = 42, nm_message_id = 100, nm_chat_id = 5,
                               nm_note_id = ''3'', nm_note_type = 0, nm_created_at = 2\<rparr>]\<rparr>\<rparr>,
         blinko_api = BlinkoAPI_init ''https://notes.example/api/v1''\<rparr>
   \<and> bot_create_note
        \<lparr>storage = \<lparr>cipher = ''key'',
           db = \<lparr>user_tokens = [\<lparr>user_id = 42, username = ''ann'',
                             encrypted_token = Fernet_token ''key'' ''secret-token'',
                             blinko_url = None, created_at = 1, updated_at = 1\<rparr>],
            note_messages = [\<lparr>nm_user_id = 42, nm_message_id = 100, nm_chat_id = 5,
                               nm_note_id = ''3'', nm_note_type = 0, nm_created_at = 2\<rparr>]\<rparr>\<rparr>,
         blinko_api = BlinkoAPI_init ''https://notes.example/api/v1''\<rparr>
        (\<lambda>req. Response 200 (Inr (PyDict [(''content'', PyStr ''Buy milk'')])))
        Sqlite_ok Sqlite_ok 3 101
        \<lparr>upd_user_id = 42, upd_username = Some ''ann'', upd_first_name = ''Ann'', upd_chat_id = 5,
         upd_args = [''Buy'', ''milk''], upd_text = ''/note Buy milk'', upd_reply_to = None,
         upd_bot_id = 99\<rparr> 0 ''note''
      = \<lparr>bot_after =
           \<lparr>storage = \<lparr>cipher = ''key'',
              db = \<lparr>user_tokens = [\<lparr>user_id = 42, username = ''ann'',
                             encrypted_token = Fernet_token ''key'' ''secret-token'',
                             blinko_url = None, created_at = 1, updated_at = 1\<rparr>],
               note_messages = [\<lparr>nm_user_id = 42, nm_message_id = 100, nm_chat_id = 5,
                               nm_note_id = ''3'', nm_note_type = 0, nm_created_at = 2\<rparr>]\<rparr>\<rparr>,
            blinko_api = BlinkoAPI_init ''https://notes.example/api/v1''\<rparr>,
         replies = [Chat_action_typing, Added_to_blinko ''note'' '' (ID: None)'' (preview ''Buy milk'')],
         requests = [create_note_request (BlinkoAPI_init ''https://notes.example/api/v1'')
                       ''secret-token'' ''Buy milk'' 0]\<rparr>
   \<and> note_ids_nonempty
        (bot_after (handle_reply_update
          \<lparr>storage = \<lparr>cipher = ''key'',
             db = \<lparr>user_tokens = [\<lparr>user_id = 42, username = ''ann'',
                             encrypted_token = Fernet_token ''key'' ''secret-token'',
                             blinko_url = None, created_at = 1, updated_at = 1\<rparr>],
              note_messages = [\<lparr>nm_user_id = 42, nm_message_id = 100, nm_chat_id = 5,
                               nm_note_id = ''3'', nm_note_type = 0, nm_created_at = 2\<rparr>]\<rparr>\<rparr>,
           blinko_api = BlinkoAPI_init ''https://notes.example/api/v1''\<rparr>
          (\<lambda>req. Response 200 (Inr (PyDict [(''content'', PyStr ''Buy milk'')])))
          Sqlite_ok Sqlite_ok Sqlite_ok 3 101
          \<lparr>upd_user_id = 42, upd_username = Some ''ann'', upd_first_name = ''Ann'', upd_chat_id = 5,
           upd_args = [''Buy'', ''milk''], upd_text = ''/note Buy milk'', upd_reply_to = None,
           upd_bot_id = 99\<rparr>))"
  using bot_create_note_correlation
    [of "\<lparr>storage = \<lparr>cipher = ''key'',
           db = \<lparr>user_tokens = [\<lparr>user_id = 42, username = ''ann'',
                             encrypted_token = Fernet_token ''key'' ''secret-token'',
                             blinko_url = None, created_at = 1, updated_at = 1\<rparr>],
            note_messages = [\<lparr>nm_user_id = 42, nm_message_id = 100, nm_chat_id = 5,
                               nm_note_id = ''3'', nm_note_type = 0, nm_created_at = 2\<rparr>]\<rparr>\<rparr>,
         blinko_api = BlinkoAPI_init ''https://notes.example/api/v1''\<rparr>"
        "\<lambda>req. Response 200 (Inr (PyDict [(''content'', PyStr ''Buy milk'')]))"
        Sqlite_ok Sqlite_ok 3 101
        "\<lparr>upd_user_id = 42, upd_username = Some ''ann'', upd_first_name = ''Ann'', upd_chat_id = 5,
         upd_args = [''Buy'', ''milk''], upd_text = ''/note Buy milk'', upd_reply_to = None,
         upd_bot_id = 99\<rparr>" 0 "''note''" "''secret-token''" "''Buy milk''" 200
        "[(''content'', PyStr ''Buy milk'')]" Sqlite_ok]
  by (simp add: get_user_token_def py_strip_def py_rstrip_def py_lstrip_def py_isspace_def
      note_ids_nonempty_def)

end
